theory Spec2Isabelle
  imports Main
begin

section \<open>Data model\<close>

text \<open>
  The agent of \<^verbatim>\<open>src/js/src/agent/index.ts\<close> is a graph of four nodes over a state
  declared by \<^verbatim>\<open>GraphAnnotation\<close> and a configuration declared by \<^verbatim>\<open>GraphConfig\<close>.
  A \<^verbatim>\<open>BaseMessage\<close> is read through \<^verbatim>\<open>_getType()\<close> and \<^verbatim>\<open>content\<close>, whose
  type is either a string or a structured value.
\<close>

datatype content = Text string | Structured

record message =
  getType :: string
  content :: content

text \<open>
  \<^verbatim>\<open>UserRules\<close>: both lists are read with optional chaining
  (\<^verbatim>\<open>state.userRules.styleRules?.length\<close>), so either may be absent.
\<close>

record UserRules =
  styleRules :: "string list option"
  contentRules :: "string list option"

text \<open>The values a state field, an update or the store can hold.\<close>

datatype val = VUndef | VBool bool | VMsg message | VRules UserRules | VList "val list"

text \<open>\<^verbatim>\<open>typeof GraphAnnotation.State\<close>, as the nodes and routers read it.\<close>

record State =
  messages :: "message list"
  userRules :: "UserRules option"
  contentGenerated :: "bool option"
  rules :: "UserRules option"

text \<open>
  \<^verbatim>\<open>GraphConfig\<close> and the \<^verbatim>\<open>assistant_id\<close> that keys the shared value; every
  entry of \<^verbatim>\<open>configurable\<close> may be missing, and so may \<^verbatim>\<open>configurable\<close> and the
  configuration itself (\<^verbatim>\<open>config?: RunnableConfig\<close>).
\<close>

record Configurable =
  systemRules :: "string option"
  hasAcceptedText :: "bool option"
  onlyGetRules :: "bool option"
  assistant_id :: "string option"

record RunnableConfig =
  configurable :: "Configurable option"

text \<open>A partial update: the entries of the object a node returns, in source order.\<close>

type_synonym update = "(string \<times> val) list"

datatype error =
  UnknownFieldError | InvalidRouteError | TopologyError
  | SchemaValidationError | CollaboratorFailure

text \<open>What is sent to a model: role/content pairs and messages of the history.\<close>

datatype prompt_msg = Role string string | Base message

text \<open>One invocation of a model collaborator: the model's name and its input.\<close>

datatype model_call = ModelCall string "prompt_msg list"

text \<open>The structured output validated by \<^verbatim>\<open>userRulesSchema\<close>.\<close>

datatype userRulesSchema =
  UserRulesOut (out_contentRules: "string list") (out_styleRules: "string list")

text \<open>
  What the file imports and never defines: the constant \<^verbatim>\<open>DEFAULT_SYSTEM_RULES\<close> of
  \<^verbatim>\<open>../constants\<close> and the three model invocations (\<^verbatim>\<open>ChatAnthropic.invoke\<close>, and
  the two \<^verbatim>\<open>withStructuredOutput\<close> models), each of which may fail.
\<close>

record externals =
  DEFAULT_SYSTEM_RULES :: "string list"
  invoke :: "prompt_msg list \<Rightarrow> RunnableConfig option \<Rightarrow> error + message"
  invokeUserRules :: "prompt_msg list \<Rightarrow> RunnableConfig option \<Rightarrow> error + userRulesSchema"
  invokeContentGenerated :: "prompt_msg list \<Rightarrow> RunnableConfig option \<Rightarrow> error + bool"

section \<open>JavaScript strings\<close>

text \<open>\<^verbatim>\<open>Array.prototype.join\<close>.\<close>

fun js_join :: "string \<Rightarrow> string list \<Rightarrow> string" where
  "js_join sep [] = []"
| "js_join sep [x] = x"
| "js_join sep (x # y # ys) = x @ sep @ js_join sep (y # ys)"

definition starts_with :: "string \<Rightarrow> string \<Rightarrow> bool" where
  "starts_with pat s = (take (length pat) s = pat)"

text \<open>The text before and after the first occurrence of \<open>pat\<close> in \<open>s\<close>.\<close>

fun split_first :: "string \<Rightarrow> string \<Rightarrow> (string \<times> string) option" where
  "split_first pat [] = (if pat = [] then Some ([], []) else None)"
| "split_first pat (c # cs) =
     (if starts_with pat (c # cs) then Some ([], drop (length pat) (c # cs))
      else (case split_first pat cs of
              None \<Rightarrow> None
            | Some (pre, post) \<Rightarrow> Some (c # pre, post)))"

text \<open>
  \<^verbatim>\<open>GetSubstitution\<close> for a string pattern (no captures): \<^verbatim>\<open>$$\<close> is a dollar,
  \<^verbatim>\<open>$&\<close> the match, \<^verbatim>\<open>$`\<close> the text before it, \<^verbatim>\<open>$'\<close> the text after it;
  every other character stands for itself.
\<close>

fun get_substitution :: "string \<Rightarrow> string \<Rightarrow> string \<Rightarrow> string \<Rightarrow> string" where
  "get_substitution matched pre post [] = []"
| "get_substitution matched pre post [c] = [c]"
| "get_substitution matched pre post (c # d # r) =
     (if c = CHR ''$'' \<and> d = CHR ''$'' then CHR ''$'' # get_substitution matched pre post r
      else if c = CHR ''$'' \<and> d = CHR ''&'' then matched @ get_substitution matched pre post r
      else if c = CHR ''$'' \<and> d = CHR 0x60 then pre @ get_substitution matched pre post r
      else if c = CHR ''$'' \<and> d = CHR 0x27 then post @ get_substitution matched pre post r
      else c # get_substitution matched pre post (d # r))"

text \<open>
  \<^verbatim>\<open>String.prototype.replace\<close> with a string pattern: only the first occurrence is
  replaced, and a string without the pattern is returned as it is.
\<close>

definition js_replace :: "string \<Rightarrow> string \<Rightarrow> string \<Rightarrow> string" where
  "js_replace s pat repl =
     (case split_first pat s of
        None \<Rightarrow> s
      | Some (pre, post) \<Rightarrow> pre @ get_substitution pat pre post repl @ post)"

text \<open>A non-negative integer in a template literal.\<close>

fun show_nat :: "nat \<Rightarrow> string" where
  "show_nat n =
     (if n < 10 then [char_of (48 + n)]
      else show_nat (n div 10) @ [char_of (48 + n mod 10)])"

text \<open>\<^verbatim>\<open>a || b\<close> on an optional string: the empty string and \<^verbatim>\<open>undefined\<close> are falsy.\<close>

definition truthy :: "string option \<Rightarrow> bool" where
  "truthy s = (case s of None \<Rightarrow> False | Some t \<Rightarrow> t \<noteq> [])"

definition or_else :: "string option \<Rightarrow> string \<Rightarrow> string" where
  "or_else s d = (case s of None \<Rightarrow> d | Some t \<Rightarrow> if t \<noteq> [] then t else d)"

section \<open>Prompts\<close>

definition DEFAULT_SYSTEM_RULES_STRING :: "externals \<Rightarrow> string" where
  "DEFAULT_SYSTEM_RULES_STRING ext = ''- '' @ js_join ''\<newline>- '' (DEFAULT_SYSTEM_RULES ext)"

definition DEFAULT_RULES_STRING :: string where
  "DEFAULT_RULES_STRING = ''*no rules have been set yet*''"

definition RULES_PROMPT :: string where
  "RULES_PROMPT =
   ''The user has defined two sets of rules. The first set is for style guidelines, and the second set is for content guidelines.\<newline>''
 @ ''\<newline>''
 @ ''<style_rules>\<newline>''
 @ ''{styleRules}\<newline>''
 @ ''</style_rules>\<newline>''
 @ ''\<newline>''
 @ ''<content_rules>\<newline>''
 @ ''{contentRules}\<newline>''
 @ ''</content_rules>''"

definition SYSTEM_PROMPT :: string where
  "SYSTEM_PROMPT =
   ''You are a helpful assistant tasked with thoughtfully fulfilling the requests of the user.\<newline>''
 @ ''\<newline>''
 @ ''System rules:\<newline>''
 @ ''\<newline>''
 @ ''<system_rules>\<newline>''
 @ ''{systemRules}\<newline>''
 @ ''</system_rules>\<newline>''
 @ ''\<newline>''
 @ ''{rulesPrompt}''"

definition INSIGHTS_PROMPT :: string where
  \<open>INSIGHTS_PROMPT =
   ''This conversation contains back and fourth between an AI assistant, and a user who is using the assistant to generate text.\<newline>''
 @ ''\<newline>''
 @ ''User messages which are prefixed with "REVISED MESSAGE" contain the entire revised text the user made to the assistant message directly before in the conversation.\<newline>''
 @ ''Revisions are made directly by users, so you should pay VERY close attention to every single change made, no matter how small. These should be heavily considered when generating rules.\<newline>''
 @ ''\<newline>''
 @ ''Important aspects of revisions to consider:\<newline>''
 @ ''- Deletions: What did the user remove? Do you need a rule to avoid adding this in the future?\<newline>''
 @ ''- Tone: Did they change the overall tone? Do you need a rule to ensure this tone is maintained?\<newline>''
 @ ''- Structure: Did they change the structure of the text? This is important to remember, as it may be a common pattern. \<newline>''
 @ ''\<newline>''
 @ ''There also may be additional back and fourth between the user and the assistant.\<newline>''
 @ ''\<newline>''
 @ ''Based on the conversation, and paying particular attention to any changes made in the "REVISED MESSAGE", your job is to create a list of rules to use in the future to help the AI assistant better generate text.\<newline>''
 @ ''\<newline>''
 @ ''These rules should be split into two categories:\<newline>''
 @ ''1. Style guidelines: These rules should focus on the style, tone, and structure of the text.\<newline>''
 @ ''2. Content guidelines: These rules should focus on the content, context, and purpose of the text. Think of this as the business logic or domain-specific rules.\<newline>''
 @ ''\<newline>''
 @ ''In your response, include every single rule you want the AI assistant to follow in the future. You should list rules based on a combination of the existing conversation as well as previous rules.\<newline>''
 @ ''You can modify previous rules if you think the new conversation has helpful information, or you can delete old rules if they don't seem relevant, or you can add new rules based on the conversation.\<newline>''
 @ ''\<newline>''
 @ ''Refrain from adding overly generic rules like "follow instructions". These generic rules are already outlined in the "system_rules" below.\<newline>''
 @ ''Instead, focus your attention on specific details, writing style, or other aspects of the conversation that you think are important for the AI to follow.\<newline>''
 @ ''\<newline>''
 @ ''The user has defined the following rules:\<newline>''
 @ ''\<newline>''
 @ ''<style_rules>\<newline>''
 @ ''{styleRules}\<newline>''
 @ ''</style_rules>\<newline>''
 @ ''\<newline>''
 @ ''<content_rules>\<newline>''
 @ ''{contentRules}\<newline>''
 @ ''</content_rules>\<newline>''
 @ ''\<newline>''
 @ ''Here is the conversation:\<newline>''
 @ ''\<newline>''
 @ ''<conversation>\<newline>''
 @ ''{conversation}\<newline>''
 @ ''</conversation>\<newline>''
 @ ''\<newline>''
 @ ''And here are the default system rules:\<newline>''
 @ ''\<newline>''
 @ ''<system_rules>\<newline>''
 @ ''{systemRules}\<newline>''
 @ ''</system_rules>\<newline>''
 @ ''\<newline>''
 @ ''Respond with updated rules to keep in mind for future conversations. Try to keep the rules you list high signal-to-noise - don't include unnecessary ones, but make sure the ones you do add are descriptive. Combine ones that seem similar and/or contradictory''\<close>

definition CONTENT_GENERATED_PROMPT :: string where
  \<open>CONTENT_GENERATED_PROMPT =
   ''Given the following conversation between a user and an AI assistant, determine whether or not writing content (think, a blog post, or tweet) was generated by the assistant, or if it's just a conversation.\<newline>''
 @ ''If writing content was generated, set 'contentGenerated' to true, otherwise set it to false.\<newline>''
 @ ''\<newline>''
 @ ''<conversation>\<newline>''
 @ ''{conversation}\<newline>''
 @ ''</conversation>''\<close>

section \<open>Nodes\<close>

text \<open>\<^verbatim>\<open>config?.configurable?.systemRules ?? DEFAULT_SYSTEM_RULES_STRING\<close>.\<close>

definition configured_systemRules :: "externals \<Rightarrow> RunnableConfig option \<Rightarrow> string" where
  "configured_systemRules ext config =
     (case config of
        None \<Rightarrow> DEFAULT_SYSTEM_RULES_STRING ext
      | Some c \<Rightarrow>
          (case configurable c of
             None \<Rightarrow> DEFAULT_SYSTEM_RULES_STRING ext
           | Some cf \<Rightarrow>
               (case systemRules cf of
                  None \<Rightarrow> DEFAULT_SYSTEM_RULES_STRING ext
                | Some s \<Rightarrow> s)))"

text \<open>
  The list written as \<^verbatim>\<open>`- ${xs.join("\n - ")}`\<close> under the guard \<^verbatim>\<open>xs?.length\<close>:
  an absent or empty list assigns nothing.
\<close>

definition bulleted :: "string list option \<Rightarrow> string option" where
  "bulleted xs =
     (case xs of
        None \<Rightarrow> None
      | Some l \<Rightarrow> if length l \<noteq> 0 then Some (''- '' @ js_join ''\<newline> - '' l) else None)"

text \<open>
  The system prompt of \<^verbatim>\<open>callModel\<close>. In the branch without rules the source calls
  \<^verbatim>\<open>systemPrompt.replace("{rulesPrompt}", "")\<close> and does not assign the result.
\<close>

definition callModel_systemPrompt :: "externals \<Rightarrow> State \<Rightarrow> RunnableConfig option \<Rightarrow> string" where
  "callModel_systemPrompt ext state config =
     (let styleRules' = (case userRules state of None \<Rightarrow> None | Some ur \<Rightarrow> bulleted (styleRules ur));
          contentRules' = (case userRules state of None \<Rightarrow> None | Some ur \<Rightarrow> bulleted (contentRules ur));
          systemPrompt = js_replace SYSTEM_PROMPT ''{systemRules}'' (configured_systemRules ext config)
      in if truthy styleRules' \<or> truthy contentRules'
         then js_replace
                (js_replace
                   (js_replace systemPrompt ''{rulesPrompt}'' RULES_PROMPT)
                   ''{styleRules}'' (or_else styleRules' DEFAULT_RULES_STRING))
                ''{contentRules}'' (or_else contentRules' DEFAULT_RULES_STRING)
         else (let discarded = js_replace systemPrompt ''{rulesPrompt}'' [] in systemPrompt))"

definition callModel_input :: "externals \<Rightarrow> State \<Rightarrow> RunnableConfig option \<Rightarrow> prompt_msg list" where
  "callModel_input ext state config =
     Role ''system'' (callModel_systemPrompt ext state config) # map Base (messages state)"

text \<open>
  A node returns the model calls it made and either the error that ended it or its
  partial update.
\<close>

type_synonym node_result = "model_call list \<times> (error + update)"

definition callModel :: "externals \<Rightarrow> State \<Rightarrow> RunnableConfig option \<Rightarrow> node_result" where
  "callModel ext state config =
     (let input = callModel_input ext state config
      in ([ModelCall ''claude-3-5-sonnet-20240620'' input],
          (case invoke ext input config of
             Inl e \<Rightarrow> Inl e
           | Inr response \<Rightarrow> Inr [(''messages'', VList [VMsg response])])))"

definition prepareConversation :: "message list \<Rightarrow> string" where
  "prepareConversation msgs =
     js_join ''\<newline>\<newline>''
       (map (\<lambda>(i, msg).
               (case content msg of
                  Structured \<Rightarrow> []
                | Text t \<Rightarrow>
                    ''<'' @ getType msg @ ''_message index={'' @ show_nat i @ ''}>\<newline>''
                    @ t @ ''\<newline></'' @ getType msg @ ''_message>''))
            (enumerate 0 msgs))"

definition generateInsights_prompt :: "externals \<Rightarrow> State \<Rightarrow> RunnableConfig option \<Rightarrow> string" where
  "generateInsights_prompt ext state config =
     (let styleRules' = (case userRules state of
                           None \<Rightarrow> DEFAULT_RULES_STRING
                         | Some ur \<Rightarrow> (case bulleted (styleRules ur) of
                                        None \<Rightarrow> DEFAULT_RULES_STRING | Some s \<Rightarrow> s));
          contentRules' = (case userRules state of
                             None \<Rightarrow> DEFAULT_RULES_STRING
                           | Some ur \<Rightarrow> (case bulleted (contentRules ur) of
                                          None \<Rightarrow> DEFAULT_RULES_STRING | Some s \<Rightarrow> s))
      in js_replace
           (js_replace
              (js_replace
                 (js_replace INSIGHTS_PROMPT ''{systemRules}'' (configured_systemRules ext config))
                 ''{styleRules}'' styleRules')
              ''{contentRules}'' contentRules')
           ''{conversation}'' (prepareConversation (messages state)))"

text \<open>
  \<^verbatim>\<open>generateInsights\<close> returns \<^verbatim>\<open>{ userRules: {...result}, userAcceptedText: false }\<close>.
\<close>

definition generateInsights :: "externals \<Rightarrow> State \<Rightarrow> RunnableConfig option \<Rightarrow> node_result" where
  "generateInsights ext state config =
     (let input = [Role ''user'' (generateInsights_prompt ext state config)]
      in ([ModelCall ''claude-3-5-sonnet-20240620'' input],
          (case invokeUserRules ext input config of
             Inl e \<Rightarrow> Inl e
           | Inr result \<Rightarrow>
               Inr [(''userRules'',
                     VRules \<lparr>styleRules = Some (out_styleRules result),
                             contentRules = Some (out_contentRules result)\<rparr>),
                    (''userAcceptedText'', VBool False)])))"

definition wasContentGenerated :: "externals \<Rightarrow> State \<Rightarrow> node_result" where
  "wasContentGenerated ext state =
     (let formattedPrompt =
            js_replace CONTENT_GENERATED_PROMPT ''{conversation}'' (prepareConversation (messages state));
          input = [Role ''user'' formattedPrompt]
      in ([ModelCall ''claude-3-haiku-20240307'' input],
          (case invokeContentGenerated ext input None of
             Inl e \<Rightarrow> Inl e
           | Inr b \<Rightarrow> Inr [(''contentGenerated'', VBool b)])))"

definition getRules :: "State \<Rightarrow> node_result" where
  "getRules state =
     ([], Inr [(''rules'', (case userRules state of None \<Rightarrow> VUndef | Some r \<Rightarrow> VRules r))])"

section \<open>Routers\<close>

datatype target = END | Node string

definition shouldCheckContentGeneration :: "State \<Rightarrow> target" where
  "shouldCheckContentGeneration state =
     (if contentGenerated state = Some True then END else Node ''wasContentGenerated'')"

text \<open>
  The defaults \<^verbatim>\<open>{hasAcceptedText: false, onlyGetRules: false}\<close> overlaid with
  \<^verbatim>\<open>config?.configurable || {}\<close>: a flag is true only when the configuration is
  there, has a \<^verbatim>\<open>configurable\<close>, and that sets the flag to true.
\<close>

definition flag :: "(Configurable \<Rightarrow> bool option) \<Rightarrow> RunnableConfig option \<Rightarrow> bool" where
  "flag sel config =
     (case config of
        None \<Rightarrow> False
      | Some c \<Rightarrow>
          (case configurable c of
             None \<Rightarrow> False
           | Some cf \<Rightarrow> (case sel cf of None \<Rightarrow> False | Some b \<Rightarrow> b)))"

definition shouldGenerateInsights :: "State \<Rightarrow> RunnableConfig option \<Rightarrow> target" where
  "shouldGenerateInsights state config =
     (let hasAcceptedText' = flag hasAcceptedText config;
          onlyGetRules' = flag onlyGetRules config
      in if onlyGetRules' then Node ''getRules''
         else if hasAcceptedText' then Node ''generateInsights''
         else Node ''callModel'')"

section \<open>State schema and merge\<close>

text \<open>
  Modelled from the spec: the state schema and merge engine of the graph library
  (\<^verbatim>\<open>Annotation\<close>, \<^verbatim>\<open>MessagesAnnotation\<close>, \<^verbatim>\<open>SharedValue\<close> of
  \<^verbatim>\<open>@langchain/langgraph\<close>), which the source imports and does not contain. Every
  field has one of three merge policies: \<^emph>\<open>replace\<close>, \<^emph>\<open>append\<close>, or \<^emph>\<open>shared\<close> under
  a partition key computed from a designated configuration field.
\<close>

datatype policy = Replace | Append | Shared "Configurable \<Rightarrow> string option"

text \<open>
  Modelled from the spec (3): the schema lists every declared field with its policy;
  the transient state maps field names to values.
\<close>

type_synonym schema = "(string \<times> policy) list"

type_synonym fields = "string \<rightharpoonup> val"

text \<open>
  Modelled from the spec: the Shared Value Store, \<open>get(partitionKey) -> value | default\<close>
  and \<open>put(partitionKey, value)\<close>. The key is the value of the designated configuration
  field, which a configuration may lack: the absent key is a key like any other.
\<close>

type_synonym store = "string option \<rightharpoonup> val"

text \<open>
  Modelled from the spec (6): \<open>get\<close> returns the stored value or the empty default.
\<close>

definition store_get :: "store \<Rightarrow> string option \<Rightarrow> val" where
  "store_get st k = (case st k of None \<Rightarrow> VUndef | Some v \<Rightarrow> v)"

text \<open>
  Modelled from the spec (5, 6): \<open>put\<close> overwrites the value of one partition key
  (last write wins), and a later \<open>get\<close> on that key reads it.
\<close>

definition store_put :: "store \<Rightarrow> string option \<Rightarrow> val \<Rightarrow> store" where
  "store_put st k v = st(k \<mapsto> v)"

text \<open>
  Modelled from the spec (3): the partition key of a shared field is computed from the
  designated field of the run configuration.
\<close>

definition partition_key :: "(Configurable \<Rightarrow> string option) \<Rightarrow> RunnableConfig option \<Rightarrow> string option" where
  "partition_key on config =
     (case config of
        None \<Rightarrow> None
      | Some c \<Rightarrow> (case configurable c of None \<Rightarrow> None | Some cf \<Rightarrow> on cf))"

text \<open>
  The schema the source declares: \<^verbatim>\<open>...MessagesAnnotation.spec\<close> is the message
  history (append), \<^verbatim>\<open>userRules: SharedValue.on("assistant_id")\<close> is shared, and
  \<^verbatim>\<open>contentGenerated\<close> and \<^verbatim>\<open>rules\<close> are plain \<^verbatim>\<open>Annotation\<close>s (replace).
\<close>

definition GraphAnnotation :: schema where
  "GraphAnnotation =
     [(''messages'', Append),
      (''userRules'', Shared assistant_id),
      (''contentGenerated'', Replace),
      (''rules'', Replace)]"

text \<open>
  Modelled from the spec (4.1): a field is declared when the schema gives it a policy.
\<close>

definition declared :: "schema \<Rightarrow> string \<Rightarrow> bool" where
  "declared sch f = (case map_of sch f of None \<Rightarrow> False | Some p \<Rightarrow> True)"

text \<open>
  Modelled from the spec (4.1): a sequence-valued update to an append field appends its
  items one by one, a scalar is appended as a single item; the field's current value
  is its sequence, or the empty default.
\<close>

fun items :: "val \<Rightarrow> val list" where
  "items (VList xs) = xs"
| "items v = [v]"

text \<open>
  Modelled from the spec (4.1): the sequence an append field currently holds, empty when
  the field has no entry.
\<close>

definition sequence :: "val option \<Rightarrow> val list" where
  "sequence cur = (case cur of None \<Rightarrow> [] | Some v \<Rightarrow> items v)"

text \<open>
  Modelled from the spec (3, 4.1): one field of an update under its policy. Replace
  overwrites, append concatenates, and a write to a shared field goes to the store
  under the partition key and is not kept in the transient state.
\<close>

fun apply_policy ::
  "policy \<Rightarrow> RunnableConfig option \<Rightarrow> string \<Rightarrow> val \<Rightarrow> fields \<times> store \<Rightarrow> fields \<times> store" where
  "apply_policy Replace config f v (fs, st) = (fs(f \<mapsto> v), st)"
| "apply_policy Append config f v (fs, st) = (fs(f \<mapsto> VList (sequence (fs f) @ items v)), st)"
| "apply_policy (Shared on) config f v (fs, st) = (fs, store_put st (partition_key on config) v)"

text \<open>
  Modelled from the spec (4.1, 7): \<open>merge(currentState, partialUpdate)\<close>. A field the
  schema does not declare is an \<open>UnknownFieldError\<close>, and then nothing of the update is
  kept: the result is the error alone.
\<close>

fun merge ::
  "schema \<Rightarrow> RunnableConfig option \<Rightarrow> fields \<times> store \<Rightarrow> update \<Rightarrow> error + fields \<times> store" where
  "merge sch config cur [] = Inr cur"
| "merge sch config cur ((f, v) # u) =
     (case map_of sch f of
        None \<Rightarrow> Inl UnknownFieldError
      | Some p \<Rightarrow> merge sch config (apply_policy p config f v cur) u)"

text \<open>
  Modelled from the spec (5, 8): a sequence of partial updates, merged in arrival order
  up to the first error.
\<close>

fun merge_all ::
  "schema \<Rightarrow> RunnableConfig option \<Rightarrow> fields \<times> store \<Rightarrow> update list \<Rightarrow> error + fields \<times> store" where
  "merge_all sch config cur [] = Inr cur"
| "merge_all sch config cur (u # us) =
     (case merge sch config cur u of
        Inl e \<Rightarrow> Inl e
      | Inr cur' \<Rightarrow> merge_all sch config cur' us)"

text \<open>
  Modelled from the spec (3, 4.1): what a read of the state sees. A shared field is
  not carried in the transient state; every read returns the store's current value.
\<close>

definition resolve :: "schema \<Rightarrow> RunnableConfig option \<Rightarrow> fields \<Rightarrow> store \<Rightarrow> fields" where
  "resolve sch config fs st =
     (\<lambda>f. case map_of sch f of
            Some (Shared on) \<Rightarrow> Some (store_get st (partition_key on config))
          | _ \<Rightarrow> fs f)"

text \<open>
  The state as the source's nodes and routers are typed to read it
  (\<^verbatim>\<open>typeof GraphAnnotation.State\<close>). The declared types
  exclude other values; \<^verbatim>\<open>messages\<close> defaults to the empty history.
\<close>

definition as_rules :: "val option \<Rightarrow> UserRules option" where
  "as_rules v = (case v of Some (VRules r) \<Rightarrow> Some r | _ \<Rightarrow> None)"

definition as_State :: "fields \<Rightarrow> State" where
  "as_State fs =
     \<lparr>messages = concat (map (\<lambda>v. case v of VMsg m \<Rightarrow> [m] | _ \<Rightarrow> []) (sequence (fs ''messages''))),
      userRules = as_rules (fs ''userRules''),
      contentGenerated = (case fs ''contentGenerated'' of Some (VBool b) \<Rightarrow> Some b | _ \<Rightarrow> None),
      rules = as_rules (fs ''rules'')\<rparr>"

section \<open>Graph definition and compilation\<close>

text \<open>
  Modelled from the spec (3, 4.3): the \<^verbatim>\<open>StateGraph\<close> builder of the graph library.
  An edge is unconditional or computed by a router; its source is a node or the
  sentinel START, its target a node or the sentinel END.
\<close>

datatype source = START | From string

text \<open>
  Modelled from the spec (4.2): a router reads state and configuration and returns the
  next node or the terminal marker; a node returns a partial update.
\<close>

type_synonym router = "fields \<Rightarrow> RunnableConfig option \<Rightarrow> target"

datatype edge = Direct target | Conditional router

text \<open>
  Modelled from the spec (3): a node computes, from state and configuration, a partial
  update (here with the model calls it made, or the error that ended it).
\<close>

type_synonym node = "fields \<Rightarrow> RunnableConfig option \<Rightarrow> node_result"

text \<open>
  Modelled from the spec (3, 4.3): the graph definition under construction: the schema,
  the registered nodes and the edges, in the order they were added.
\<close>

record StateGraph =
  channels :: schema
  nodes :: "(string \<times> node) list"
  edges :: "(source \<times> edge) list"

text \<open>
  Modelled from the spec (4.3): \<^verbatim>\<open>new StateGraph(annotation)\<close>, without nodes or edges.
\<close>

definition new_StateGraph :: "schema \<Rightarrow> StateGraph" where
  "new_StateGraph sch = \<lparr>channels = sch, nodes = [], edges = []\<rparr>"

text \<open>
  Modelled from the spec (4.3): \<^verbatim>\<open>addNode\<close> registers a node under its name.
\<close>

definition addNode :: "string \<Rightarrow> node \<Rightarrow> StateGraph \<Rightarrow> StateGraph" where
  "addNode name f g = g\<lparr>nodes := nodes g @ [(name, f)]\<rparr>"

text \<open>
  Modelled from the spec (4.3): \<^verbatim>\<open>addEdge\<close> adds an unconditional edge.
\<close>

definition addEdge :: "source \<Rightarrow> target \<Rightarrow> StateGraph \<Rightarrow> StateGraph" where
  "addEdge src t g = g\<lparr>edges := edges g @ [(src, Direct t)]\<rparr>"

text \<open>
  Modelled from the spec (4.3): \<^verbatim>\<open>addConditionalEdges\<close> adds an edge computed by a router.
\<close>

definition addConditionalEdges :: "source \<Rightarrow> router \<Rightarrow> StateGraph \<Rightarrow> StateGraph" where
  "addConditionalEdges src r g = g\<lparr>edges := edges g @ [(src, Conditional r)]\<rparr>"

text \<open>
  Modelled from the spec (4.3): the executable topology: the start edge, and every node
  with its outgoing edge.
\<close>

record CompiledGraph =
  c_schema :: schema
  c_start :: edge
  c_nodes :: "(string \<times> node \<times> edge) list"

text \<open>
  Modelled from the spec (4.3): every registered node gets its outgoing edge; a node
  without one is a dead end, and there is no executable topology.
\<close>

fun attach_edges ::
  "(source \<times> edge) list \<Rightarrow> (string \<times> node) list \<Rightarrow> (string \<times> node \<times> edge) list option" where
  "attach_edges es [] = Some []"
| "attach_edges es ((n, f) # ns) =
     (case map_of es (From n) of
        None \<Rightarrow> None
      | Some e \<Rightarrow>
          (case attach_edges es ns of
             None \<Rightarrow> None
           | Some r \<Rightarrow> Some ((n, f, e) # r)))"

text \<open>
  Modelled from the spec (4.3): a node is registered when \<^verbatim>\<open>addNode\<close> has named it.
\<close>

definition registered :: "StateGraph \<Rightarrow> string \<Rightarrow> bool" where
  "registered g n = (case map_of (nodes g) n of None \<Rightarrow> False | Some f \<Rightarrow> True)"

text \<open>
  Modelled from the spec (4.3): an edge may only start at START or a registered node and
  may only lead to END or a registered node.
\<close>

definition edge_ok :: "StateGraph \<Rightarrow> source \<times> edge \<Rightarrow> bool" where
  "edge_ok g se =
     ((case fst se of START \<Rightarrow> True | From n \<Rightarrow> registered g n)
      \<and> (case snd se of Direct (Node n) \<Rightarrow> registered g n | _ \<Rightarrow> True))"

text \<open>
  Modelled from the spec (4.3): \<open>compile\<close> fails with \<open>TopologyError\<close> when an edge
  names a node that was never registered, when a node has no outgoing edge, or when
  nothing leaves START. The source's conditional edges declare no candidate sets, so
  the checks on candidate sets have nothing to inspect; a router that names a node
  which is not registered is caught when it is followed (\<open>InvalidRouteError\<close>).
\<close>

definition compile :: "StateGraph \<Rightarrow> error + CompiledGraph" where
  "compile g =
     (if \<not> list_all (edge_ok g) (edges g) then Inl TopologyError
      else (case map_of (edges g) START of
              None \<Rightarrow> Inl TopologyError
            | Some e \<Rightarrow>
                (case attach_edges (edges g) (nodes g) of
                   None \<Rightarrow> Inl TopologyError
                 | Some ns \<Rightarrow> Inr \<lparr>c_schema = channels g, c_start = e, c_nodes = ns\<rparr>)))"

section \<open>Executor\<close>

text \<open>
  Modelled from the spec (4.4): the executor of the compiled graph. A run carries the
  transient state, the store, the model calls made so far and the nodes executed so far.
\<close>

record run_state =
  r_fields :: fields
  r_store :: store
  r_calls :: "model_call list"
  r_visited :: "string list"

text \<open>
  Modelled from the spec (4.4): what a run returns: the final state (shared fields resolved through the store) or
  the error that aborted it, with the store as the run left it.
\<close>

record run_result =
  outcome :: "error + fields"
  final_store :: store
  calls :: "model_call list"
  executed :: "string list"

text \<open>
  Modelled from the spec (4.4): a run that reached END returns its state, shared fields
  resolved through the store.
\<close>

definition finished :: "schema \<Rightarrow> RunnableConfig option \<Rightarrow> run_state \<Rightarrow> run_result" where
  "finished sch config rs =
     \<lparr>outcome = Inr (resolve sch config (r_fields rs) (r_store rs)),
      final_store = r_store rs, calls = r_calls rs, executed = r_visited rs\<rparr>"

text \<open>
  Modelled from the spec (7): an aborted run surfaces the error; state and store are
  those of the last completed merge.
\<close>

definition aborted :: "error \<Rightarrow> run_state \<Rightarrow> run_result" where
  "aborted e rs =
     \<lparr>outcome = Inl e, final_store = r_store rs, calls = r_calls rs, executed = r_visited rs\<rparr>"

text \<open>
  Modelled from the spec (4.4): an unconditional edge leads to its target, a conditional
  edge to what its router returns on the given state and configuration.
\<close>

fun follow :: "edge \<Rightarrow> fields \<Rightarrow> RunnableConfig option \<Rightarrow> target" where
  "follow (Direct t) view config = t"
| "follow (Conditional r) view config = r view config"

text \<open>
  Modelled from the spec (4.4, 7): the transition function of the executor, with one
  unit of fuel per node executed; \<open>None\<close> is a run that has not reached END when
  the fuel is spent. At a node: run it on the resolved state, merge its update, then
  follow its outgoing edge on the state after the merge. An error of the node or of
  the merge aborts the run and leaves state and store as they were before the update.
\<close>

fun exec ::
  "nat \<Rightarrow> CompiledGraph \<Rightarrow> RunnableConfig option \<Rightarrow> target \<Rightarrow> run_state \<Rightarrow> run_result option" where
  "exec fuel g config END rs = Some (finished (c_schema g) config rs)"
| "exec 0 g config (Node n) rs = None"
| "exec (Suc fuel) g config (Node n) rs =
     (case map_of (c_nodes g) n of
        None \<Rightarrow> Some (aborted InvalidRouteError rs)
      | Some (f, e) \<Rightarrow>
          (case f (resolve (c_schema g) config (r_fields rs) (r_store rs)) config of
             (cs, res) \<Rightarrow>
               (let rs1 = rs\<lparr>r_calls := r_calls rs @ cs, r_visited := r_visited rs @ [n]\<rparr>
                in case res of
                     Inl err \<Rightarrow> Some (aborted err rs1)
                   | Inr u \<Rightarrow>
                       (case merge (c_schema g) config (r_fields rs1, r_store rs1) u of
                          Inl err \<Rightarrow> Some (aborted err rs1)
                        | Inr (fs', st') \<Rightarrow>
                            exec fuel g config
                              (follow e (resolve (c_schema g) config fs' st') config)
                              (rs1\<lparr>r_fields := fs', r_store := st'\<rparr>)))))"

text \<open>
  Modelled from the spec (4.4, 6): \<open>run(initialState, config)\<close>: the initial router
  sees the caller's initial state, and no node has run and no model has been called.
\<close>

definition run ::
  "nat \<Rightarrow> CompiledGraph \<Rightarrow> fields \<Rightarrow> store \<Rightarrow> RunnableConfig option \<Rightarrow> run_result option" where
  "run fuel g init st config =
     exec fuel g config
       (follow (c_start g) (resolve (c_schema g) config init st) config)
       \<lparr>r_fields = init, r_store = st, r_calls = [], r_visited = []\<rparr>"

section \<open>The agent's graph\<close>

text \<open>
  \<^verbatim>\<open>buildGraph\<close>: the builder calls of the source, in their order, then \<^verbatim>\<open>compile\<close>.
  The store handed to \<^verbatim>\<open>compile\<close> in the source is the store a run is given here.
\<close>

definition workflow :: "externals \<Rightarrow> StateGraph" where
  "workflow ext =
     fold (\<lambda>step g. step g)
       [addNode ''callModel'' (\<lambda>view. callModel ext (as_State view)),
        addNode ''generateInsights'' (\<lambda>view. generateInsights ext (as_State view)),
        addNode ''wasContentGenerated'' (\<lambda>view config. wasContentGenerated ext (as_State view)),
        addNode ''getRules'' (\<lambda>view config. getRules (as_State view)),
        addConditionalEdges START (\<lambda>view. shouldGenerateInsights (as_State view)),
        addConditionalEdges (From ''callModel'') (\<lambda>view config. shouldCheckContentGeneration (as_State view)),
        addEdge (From ''generateInsights'') END,
        addEdge (From ''wasContentGenerated'') END,
        addEdge (From ''getRules'') END]
       (new_StateGraph GraphAnnotation)"

definition buildGraph :: "externals \<Rightarrow> error + CompiledGraph" where
  "buildGraph ext = compile (workflow ext)"

section \<open>Auxiliary definitions\<close>

text \<open>
  The executable topology that \<open>buildGraph\<close> yields (lemma \<open>buildGraph_agent\<close> below).
\<close>

definition agent :: "externals \<Rightarrow> CompiledGraph" where
  "agent ext =
     \<lparr>c_schema = GraphAnnotation,
      c_start = Conditional (\<lambda>view. shouldGenerateInsights (as_State view)),
      c_nodes =
        [(''callModel'', (\<lambda>view. callModel ext (as_State view)),
            Conditional (\<lambda>view config. shouldCheckContentGeneration (as_State view))),
         (''generateInsights'', (\<lambda>view. generateInsights ext (as_State view)), Direct END),
         (''wasContentGenerated'', (\<lambda>view config. wasContentGenerated ext (as_State view)), Direct END),
         (''getRules'', (\<lambda>view config. getRules (as_State view)), Direct END)]\<rparr>"

text \<open>
  A state whose \<^verbatim>\<open>userRules\<close> gives neither a non-empty \<^verbatim>\<open>styleRules\<close> nor a non-empty
  \<^verbatim>\<open>contentRules\<close>.
\<close>

definition no_rules :: "State \<Rightarrow> bool" where
  "no_rules state =
     (case userRules state of
        None \<Rightarrow> True
      | Some ur \<Rightarrow> (case styleRules ur of None \<Rightarrow> True | Some l \<Rightarrow> l = [])
                 \<and> (case contentRules ur of None \<Rightarrow> True | Some l \<Rightarrow> l = []))"

text \<open>\<open>contains s pat\<close>: the text \<open>pat\<close> occurs in \<open>s\<close>.\<close>

definition contains :: "string \<Rightarrow> string \<Rightarrow> bool" where
  "contains s pat = (case split_first pat s of None \<Rightarrow> False | Some r \<Rightarrow> True)"

text \<open>Collaborators that always answer, and configurations, for concrete runs.\<close>

definition sample_externals :: externals where
  "sample_externals =
     \<lparr>DEFAULT_SYSTEM_RULES = [''Be helpful''],
      invoke = (\<lambda>input config. Inr \<lparr>getType = ''ai'', content = Text ''ok''\<rparr>),
      invokeUserRules = (\<lambda>input config. Inr (UserRulesOut [] [''be concise''])),
      invokeContentGenerated = (\<lambda>input config. Inr False)\<rparr>"

definition with_flags :: "bool option \<Rightarrow> bool option \<Rightarrow> string option \<Rightarrow> RunnableConfig option" where
  "with_flags accepted only key =
     Some \<lparr>configurable = Some \<lparr>systemRules = None, hasAcceptedText = accepted,
                                 onlyGetRules = only, assistant_id = key\<rparr>\<rparr>"



section \<open>Facts about the model\<close>

lemma workflow_eq:
  "workflow ext =
     \<lparr>channels = GraphAnnotation,
      nodes =
        [(''callModel'', (\<lambda>view. callModel ext (as_State view))),
         (''generateInsights'', (\<lambda>view. generateInsights ext (as_State view))),
         (''wasContentGenerated'', (\<lambda>view config. wasContentGenerated ext (as_State view))),
         (''getRules'', (\<lambda>view config. getRules (as_State view)))],
      edges =
        [(START, Conditional (\<lambda>view. shouldGenerateInsights (as_State view))),
         (From ''callModel'', Conditional (\<lambda>view config. shouldCheckContentGeneration (as_State view))),
         (From ''generateInsights'', Direct END),
         (From ''wasContentGenerated'', Direct END),
         (From ''getRules'', Direct END)]\<rparr>"
  by (simp add: workflow_def new_StateGraph_def addNode_def addEdge_def addConditionalEdges_def)

lemma buildGraph_agent: "buildGraph ext = Inr (agent ext)"
  unfolding buildGraph_def workflow_eq compile_def agent_def
  by (simp add: edge_ok_def registered_def)

lemma merge_rules:
  "merge GraphAnnotation config (fs, st) [(''rules'', v)] = Inr (fs(''rules'' \<mapsto> v), st)"
  by (simp add: GraphAnnotation_def)

lemma merge_contentGenerated:
  "merge GraphAnnotation config (fs, st) [(''contentGenerated'', v)] = Inr (fs(''contentGenerated'' \<mapsto> v), st)"
  by (simp add: GraphAnnotation_def)

lemma merge_messages:
  "merge GraphAnnotation config (fs, st) [(''messages'', v)]
     = Inr (fs(''messages'' \<mapsto> VList (sequence (fs ''messages'') @ items v)), st)"
  by (simp add: GraphAnnotation_def)

lemma merge_userAcceptedText:
  "merge GraphAnnotation config (fs, st) [(''userRules'', v), (''userAcceptedText'', w)] = Inl UnknownFieldError"
  by (simp add: GraphAnnotation_def)

lemma merge_undeclared:
  "\<not> list_all (declared sch) (map fst u) \<Longrightarrow> merge sch config cur u = Inl UnknownFieldError"
  by (induction sch config cur u rule: merge.induct) (auto simp: declared_def split: option.splits)

lemma merge_declared:
  "list_all (declared sch) (map fst u) \<Longrightarrow> \<exists>cur'. merge sch config cur u = Inr cur'"
  by (induction sch config cur u rule: merge.induct) (auto simp: declared_def split: option.splits)

lemma split_SYSTEM_PROMPT:
  "split_first ''{systemRules}'' SYSTEM_PROMPT =
     Some (''You are a helpful assistant tasked with thoughtfully fulfilling the requests of the user.\<newline>\<newline>System rules:\<newline>\<newline><system_rules>\<newline>'',
           ''\<newline></system_rules>\<newline>\<newline>{rulesPrompt}'')"
  by (simp add: SYSTEM_PROMPT_def starts_with_def)

lemma callModel_systemPrompt_no_rules:
  assumes "no_rules state"
  shows "\<exists>p. callModel_systemPrompt ext state config = p @ ''{rulesPrompt}''"
proof -
  have "\<not> truthy (case userRules state of None \<Rightarrow> None | Some ur \<Rightarrow> bulleted (styleRules ur))"
    using assms by (auto simp: no_rules_def truthy_def bulleted_def split: option.splits)
  moreover have "\<not> truthy (case userRules state of None \<Rightarrow> None | Some ur \<Rightarrow> bulleted (contentRules ur))"
    using assms by (auto simp: no_rules_def truthy_def bulleted_def split: option.splits)
  ultimately have "callModel_systemPrompt ext state config
      = js_replace SYSTEM_PROMPT ''{systemRules}'' (configured_systemRules ext config)"
    by (simp add: callModel_systemPrompt_def Let_def)
  also have "\<dots> = (''You are a helpful assistant tasked with thoughtfully fulfilling the requests of the user.\<newline>\<newline>System rules:\<newline>\<newline><system_rules>\<newline>''
       @ get_substitution ''{systemRules}''
           ''You are a helpful assistant tasked with thoughtfully fulfilling the requests of the user.\<newline>\<newline>System rules:\<newline>\<newline><system_rules>\<newline>''
           ''\<newline></system_rules>\<newline>\<newline>{rulesPrompt}'' (configured_systemRules ext config)
       @ ''\<newline></system_rules>\<newline>\<newline>'') @ ''{rulesPrompt}''"
    unfolding js_replace_def split_SYSTEM_PROMPT by simp
  finally show ?thesis by blast
qed

lemma split_first_append:
  "pat \<noteq> [] \<Longrightarrow> \<exists>r. split_first pat (p @ pat) = Some r"
proof (induction p)
  case Nil
  then show ?case by (cases pat) (auto simp: starts_with_def)
next
  case (Cons c p)
  then show ?case by (auto simp: starts_with_def split: option.splits)
qed

lemma merge_all_messages:
  "\<exists>fs'. merge_all GraphAnnotation config (fs, st) (map (\<lambda>v. [(''messages'', v)]) vs) = Inr (fs', st)
        \<and> sequence (fs' ''messages'') = sequence (fs ''messages'') @ concat (map items vs)
        \<and> (\<forall>f. f \<noteq> ''messages'' \<longrightarrow> fs' f = fs f)"
proof (induction vs arbitrary: fs)
  case Nil
  then show ?case by simp
next
  case (Cons v vs)
  obtain fs' where
    "merge_all GraphAnnotation config (fs(''messages'' \<mapsto> VList (sequence (fs ''messages'') @ items v)), st)
        (map (\<lambda>v. [(''messages'', v)]) vs) = Inr (fs', st)"
    "sequence (fs' ''messages'')
       = sequence ((fs(''messages'' \<mapsto> VList (sequence (fs ''messages'') @ items v))) ''messages'') @ concat (map items vs)"
    "\<forall>f. f \<noteq> ''messages'' \<longrightarrow> fs' f = (fs(''messages'' \<mapsto> VList (sequence (fs ''messages'') @ items v))) f"
    using Cons.IH by blast
  moreover have "merge_all GraphAnnotation config (fs, st) (map (\<lambda>v. [(''messages'', v)]) (v # vs))
      = merge_all GraphAnnotation config (fs(''messages'' \<mapsto> VList (sequence (fs ''messages'') @ items v)), st)
          (map (\<lambda>v. [(''messages'', v)]) vs)"
    by (simp add: merge_messages del: merge.simps)
  ultimately show ?case
    by (simp add: sequence_def)
qed

lemma exec_node:
  assumes "map_of (c_nodes g) n = Some (f, e)"
    and "f (resolve (c_schema g) config (r_fields rs) (r_store rs)) config = (cs, Inr u)"
    and "merge (c_schema g) config (r_fields rs, r_store rs) u = Inr (fs', st')"
  shows "exec (Suc fuel) g config (Node n) rs =
           exec fuel g config (follow e (resolve (c_schema g) config fs' st') config)
             \<lparr>r_fields = fs', r_store = st', r_calls = r_calls rs @ cs, r_visited = r_visited rs @ [n]\<rparr>"
  using assms by (cases rs) (simp add: Let_def exec.simps)

lemma exec_node_failed:
  assumes "map_of (c_nodes g) n = Some (f, e)"
    and "f (resolve (c_schema g) config (r_fields rs) (r_store rs)) config = (cs, Inl err)"
  shows "exec (Suc fuel) g config (Node n) rs =
           Some \<lparr>outcome = Inl err, final_store = r_store rs,
                 calls = r_calls rs @ cs, executed = r_visited rs @ [n]\<rparr>"
  using assms by (cases rs) (simp add: Let_def aborted_def exec.simps)

lemma exec_merge_failed:
  assumes "map_of (c_nodes g) n = Some (f, e)"
    and "f (resolve (c_schema g) config (r_fields rs) (r_store rs)) config = (cs, Inr u)"
    and "merge (c_schema g) config (r_fields rs, r_store rs) u = Inl err"
  shows "exec (Suc fuel) g config (Node n) rs =
           Some \<lparr>outcome = Inl err, final_store = r_store rs,
                 calls = r_calls rs @ cs, executed = r_visited rs @ [n]\<rparr>"
  using assms by (cases rs) (simp add: Let_def aborted_def exec.simps)

lemma exec_END:
  "exec fuel g config END rs =
     Some \<lparr>outcome = Inr (resolve (c_schema g) config (r_fields rs) (r_store rs)),
           final_store = r_store rs, calls = r_calls rs, executed = r_visited rs\<rparr>"
  by (simp add: finished_def exec.simps)

declare exec.simps [simp del]

lemma exec_to_END:
  assumes "map_of (c_nodes g) n = Some (f, Direct END)"
  shows "\<exists>r. exec (Suc fuel) g config (Node n) rs = Some r \<and> executed r = r_visited rs @ [n]"
proof -
  obtain cs res where f: "f (resolve (c_schema g) config (r_fields rs) (r_store rs)) config = (cs, res)"
    by (cases "f (resolve (c_schema g) config (r_fields rs) (r_store rs)) config")
  show ?thesis
  proof (cases res)
    case (Inl err)
    then show ?thesis using exec_node_failed [OF assms] f by simp
  next
    case (Inr u)
    show ?thesis
    proof (cases "merge (c_schema g) config (r_fields rs, r_store rs) u")
      case (Inl err)
      then show ?thesis using exec_merge_failed [OF assms] f Inr by simp
    next
      case mr: (Inr cur)
      obtain fs' st' where "cur = (fs', st')" by (cases cur)
      then show ?thesis using exec_node [OF assms] f Inr mr by (simp add: exec_END)
    qed
  qed
qed

lemma agent_simps:
  "c_schema (agent ext) = GraphAnnotation"
  "c_start (agent ext) = Conditional (\<lambda>view. shouldGenerateInsights (as_State view))"
  "map_of (c_nodes (agent ext)) ''callModel'' =
     Some ((\<lambda>view. callModel ext (as_State view)),
           Conditional (\<lambda>view config. shouldCheckContentGeneration (as_State view)))"
  "map_of (c_nodes (agent ext)) ''generateInsights'' =
     Some ((\<lambda>view. generateInsights ext (as_State view)), Direct END)"
  "map_of (c_nodes (agent ext)) ''wasContentGenerated'' =
     Some ((\<lambda>view config. wasContentGenerated ext (as_State view)), Direct END)"
  "map_of (c_nodes (agent ext)) ''getRules'' =
     Some ((\<lambda>view config. getRules (as_State view)), Direct END)"
  by (simp_all add: agent_def)

lemma run_agent:
  "run fuel (agent ext) init st config =
     exec fuel (agent ext) config
       (shouldGenerateInsights (as_State (resolve GraphAnnotation config init st)) config)
       \<lparr>r_fields = init, r_store = st, r_calls = [], r_visited = []\<rparr>"
  by (simp add: run_def agent_simps)

lemma exec_getRules:
  "exec (Suc fuel) (agent ext) config (Node ''getRules'') rs =
     Some \<lparr>outcome = Inr (resolve GraphAnnotation config
                          ((r_fields rs)(''rules'' \<mapsto>
                             (case userRules (as_State (resolve GraphAnnotation config (r_fields rs) (r_store rs))) of
                                None \<Rightarrow> VUndef | Some r \<Rightarrow> VRules r)))
                          (r_store rs)),
           final_store = r_store rs, calls = r_calls rs, executed = r_visited rs @ [''getRules'']\<rparr>"
proof -
  have "exec (Suc fuel) (agent ext) config (Node ''getRules'') rs =
          exec fuel (agent ext) config END
            \<lparr>r_fields = (r_fields rs)(''rules'' \<mapsto>
                 (case userRules (as_State (resolve GraphAnnotation config (r_fields rs) (r_store rs))) of
                    None \<Rightarrow> VUndef | Some r \<Rightarrow> VRules r)),
             r_store = r_store rs, r_calls = r_calls rs @ [], r_visited = r_visited rs @ [''getRules'']\<rparr>"
    using exec_node [OF agent_simps(6), where rs = rs and config = config and fuel = fuel and ext1 = ext,
        OF _ merge_rules [where config = config and fs = "r_fields rs" and st = "r_store rs", folded agent_simps(1) [of ext]]]
    by (simp add: getRules_def agent_simps)
  then show ?thesis by (simp add: exec_END agent_simps)
qed

lemma exec_generateInsights_ends:
  "\<exists>r. exec (Suc fuel) (agent ext) config (Node ''generateInsights'') rs = Some r
        \<and> executed r = r_visited rs @ [''generateInsights'']"
  by (rule exec_to_END [OF agent_simps(4)])

lemma exec_wasContentGenerated_ends:
  "\<exists>r. exec (Suc fuel) (agent ext) config (Node ''wasContentGenerated'') rs = Some r
        \<and> executed r = r_visited rs @ [''wasContentGenerated'']"
  by (rule exec_to_END [OF agent_simps(5)])

lemma exec_getRules_ends:
  "\<exists>r. exec (Suc fuel) (agent ext) config (Node ''getRules'') rs = Some r
        \<and> executed r = r_visited rs @ [''getRules'']"
  by (rule exec_to_END [OF agent_simps(6)])

lemma exec_callModel_step:
  assumes "invoke ext (callModel_input ext (as_State (resolve GraphAnnotation config (r_fields rs) (r_store rs))) config) config
             = Inr response"
  shows "exec (Suc fuel) (agent ext) config (Node ''callModel'') rs =
           exec fuel (agent ext) config
             (shouldCheckContentGeneration
                (as_State (resolve GraphAnnotation config
                   ((r_fields rs)(''messages'' \<mapsto> VList (sequence (r_fields rs ''messages'') @ [VMsg response])))
                   (r_store rs))))
             \<lparr>r_fields = (r_fields rs)(''messages'' \<mapsto> VList (sequence (r_fields rs ''messages'') @ [VMsg response])),
              r_store = r_store rs,
              r_calls = r_calls rs @
                [ModelCall ''claude-3-5-sonnet-20240620''
                   (callModel_input ext (as_State (resolve GraphAnnotation config (r_fields rs) (r_store rs))) config)],
              r_visited = r_visited rs @ [''callModel'']\<rparr>"
proof -
  let ?view = "resolve (c_schema (agent ext)) config (r_fields rs) (r_store rs)"
  let ?input = "callModel_input ext (as_State (resolve GraphAnnotation config (r_fields rs) (r_store rs))) config"
  have node: "(\<lambda>view. callModel ext (as_State view)) ?view config =
                ([ModelCall ''claude-3-5-sonnet-20240620'' ?input], Inr [(''messages'', VList [VMsg response])])"
    using assms by (simp add: callModel_def Let_def agent_simps)
  have m: "merge (c_schema (agent ext)) config (r_fields rs, r_store rs) [(''messages'', VList [VMsg response])]
             = Inr ((r_fields rs)(''messages'' \<mapsto> VList (sequence (r_fields rs ''messages'') @ [VMsg response])), r_store rs)"
    by (simp add: agent_simps merge_messages del: merge.simps)
  show ?thesis
    using exec_node [OF agent_simps(3) node m] by (simp add: agent_simps)
qed

lemma exec_callModel_failed:
  assumes "invoke ext (callModel_input ext (as_State (resolve GraphAnnotation config (r_fields rs) (r_store rs))) config) config
             = Inl err"
  shows "\<exists>r. exec (Suc fuel) (agent ext) config (Node ''callModel'') rs = Some r
            \<and> executed r = r_visited rs @ [''callModel'']"
proof -
  let ?view = "resolve (c_schema (agent ext)) config (r_fields rs) (r_store rs)"
  let ?input = "callModel_input ext (as_State (resolve GraphAnnotation config (r_fields rs) (r_store rs))) config"
  have node: "(\<lambda>view. callModel ext (as_State view)) ?view config =
                ([ModelCall ''claude-3-5-sonnet-20240620'' ?input], Inl err)"
    using assms by (simp add: callModel_def Let_def agent_simps)
  show ?thesis
    using exec_node_failed [OF agent_simps(3) node] by simp
qed

lemma exec_callModel:
  "\<exists>r. exec (Suc (Suc fuel)) (agent ext) config (Node ''callModel'') rs = Some r
        \<and> length (executed r) \<le> length (r_visited rs) + 2"
proof -
  let ?input = "callModel_input ext (as_State (resolve GraphAnnotation config (r_fields rs) (r_store rs))) config"
  show ?thesis
  proof (cases "invoke ext ?input config")
    case (Inl err)
    then show ?thesis
      using exec_callModel_failed [of ext config rs err "Suc fuel"] by auto
  next
    case (Inr response)
    let ?fs = "(r_fields rs)(''messages'' \<mapsto> VList (sequence (r_fields rs ''messages'') @ [VMsg response]))"
    let ?rs = "\<lparr>r_fields = ?fs, r_store = r_store rs,
                r_calls = r_calls rs @ [ModelCall ''claude-3-5-sonnet-20240620'' ?input],
                r_visited = r_visited rs @ [''callModel'']\<rparr>"
    note step = exec_callModel_step [OF Inr, of "Suc fuel"]
    show ?thesis
    proof (cases "shouldCheckContentGeneration (as_State (resolve GraphAnnotation config ?fs (r_store rs)))")
      case END
      then show ?thesis using step by (simp add: exec_END)
    next
      case (Node n)
      then have n: "n = ''wasContentGenerated''"
        by (simp add: shouldCheckContentGeneration_def split: if_splits)
      obtain r where "exec (Suc fuel) (agent ext) config (Node ''wasContentGenerated'') ?rs = Some r"
        "executed r = r_visited ?rs @ [''wasContentGenerated'']"
        using exec_wasContentGenerated_ends [of fuel ext config ?rs] by blast
      then show ?thesis using step Node n by simp
    qed
  qed
qed

lemma run_agent_terminates:
  "\<exists>r. run (Suc (Suc fuel)) (agent ext) init st config = Some r \<and> length (executed r) \<le> 2"
proof -
  let ?rs = "\<lparr>r_fields = init, r_store = st, r_calls = [], r_visited = []\<rparr>"
  let ?t = "shouldGenerateInsights (as_State (resolve GraphAnnotation config init st)) config"
  consider "?t = Node ''getRules''" | "?t = Node ''generateInsights''" | "?t = Node ''callModel''"
    by (cases "flag onlyGetRules config"; cases "flag hasAcceptedText config")
       (simp_all add: shouldGenerateInsights_def)
  then show ?thesis
  proof cases
    case 1
    then show ?thesis
      using exec_getRules_ends [of "Suc fuel" ext config ?rs]
      by (auto simp: run_agent)
  next
    case 2
    then show ?thesis
      using exec_generateInsights_ends [of "Suc fuel" ext config ?rs]
      by (auto simp: run_agent)
  next
    case 3
    then show ?thesis
      using exec_callModel [of fuel ext config ?rs]
      by (auto simp: run_agent)
  qed
qed

text \<open>
  Under the rule of spec 7 for a field the schema does not declare, the update of
  \<^verbatim>\<open>generateInsights\<close> is refused as a whole and the run is aborted.
\<close>

lemma run_generateInsights_aborts:
  assumes "\<not> flag onlyGetRules config" and "flag hasAcceptedText config"
    and "invokeUserRules ext
           [Role ''user'' (generateInsights_prompt ext (as_State (resolve GraphAnnotation config init st)) config)]
           config = Inr result"
  shows "run (Suc fuel) (agent ext) init st config =
           Some \<lparr>outcome = Inl UnknownFieldError, final_store = st,
                 calls = [ModelCall ''claude-3-5-sonnet-20240620''
                            [Role ''user'' (generateInsights_prompt ext
                               (as_State (resolve GraphAnnotation config init st)) config)]],
                 executed = [''generateInsights'']\<rparr>"
proof -
  let ?rs = "\<lparr>r_fields = init, r_store = st, r_calls = [], r_visited = []\<rparr>"
  let ?view = "resolve (c_schema (agent ext)) config (r_fields ?rs) (r_store ?rs)"
  let ?u = "[(''userRules'',
              VRules \<lparr>styleRules = Some (out_styleRules result),
                      contentRules = Some (out_contentRules result)\<rparr>),
             (''userAcceptedText'', VBool False)]"
  have start: "run (Suc fuel) (agent ext) init st config =
          exec (Suc fuel) (agent ext) config (Node ''generateInsights'') ?rs"
    using assms(1,2) by (simp add: run_agent shouldGenerateInsights_def)
  have node: "(\<lambda>view. generateInsights ext (as_State view)) ?view config =
                ([ModelCall ''claude-3-5-sonnet-20240620''
                    [Role ''user'' (generateInsights_prompt ext
                       (as_State (resolve GraphAnnotation config init st)) config)]], Inr ?u)"
    using assms(3) by (simp add: generateInsights_def Let_def agent_simps)
  have m: "merge (c_schema (agent ext)) config (r_fields ?rs, r_store ?rs) ?u = Inl UnknownFieldError"
    by (simp add: agent_simps merge_userAcceptedText del: merge.simps)
  show ?thesis
    using exec_merge_failed [OF agent_simps(4) node m] start by simp
qed



section \<open>Claims\<close>

text \<open>
  C8. The initial route does not depend on the initial state: for any two states and
  any configuration \<open>shouldGenerateInsights\<close> returns the same node, which is a
  function of the flags \<open>onlyGetRules\<close> and \<open>hasAcceptedText\<close> alone.
\<close>

theorem initial_route_ignores_state:
  "shouldGenerateInsights s1 c = shouldGenerateInsights s2 c
   \<and> shouldGenerateInsights s1 c =
       (if flag onlyGetRules c then Node ''getRules''
        else if flag hasAcceptedText c then Node ''generateInsights''
        else Node ''callModel'')"
  by (simp add: shouldGenerateInsights_def)

text \<open>
  C10. A missing configuration, a missing \<open>configurable\<close> and a missing flag all count
  as the flag being false; a run invoked with no configuration at all starts at
  \<open>callModel\<close>.
\<close>

theorem missing_flags_are_false:
  "shouldGenerateInsights s None = Node ''callModel''
   \<and> shouldGenerateInsights s (Some \<lparr>configurable = None\<rparr>) = Node ''callModel''
   \<and> shouldGenerateInsights s (Some \<lparr>configurable = Some (cf\<lparr>hasAcceptedText := None\<rparr>)\<rparr>)
       = shouldGenerateInsights s (Some \<lparr>configurable = Some (cf\<lparr>hasAcceptedText := Some False\<rparr>)\<rparr>)
   \<and> shouldGenerateInsights s (Some \<lparr>configurable = Some (cf\<lparr>onlyGetRules := None\<rparr>)\<rparr>)
       = shouldGenerateInsights s (Some \<lparr>configurable = Some (cf\<lparr>onlyGetRules := Some False\<rparr>)\<rparr>)
   \<and> shouldGenerateInsights s
         (Some \<lparr>configurable = Some \<lparr>systemRules = sr, hasAcceptedText = None,
                                     onlyGetRules = None, assistant_id = key\<rparr>\<rparr>) = Node ''callModel''
   \<and> buildGraph ext = Inr (agent ext)
   \<and> follow (c_start (agent ext)) (resolve (c_schema (agent ext)) None init st) None = Node ''callModel''
   \<and> run fuel (agent ext) init st None =
       exec fuel (agent ext) None (Node ''callModel'')
         \<lparr>r_fields = init, r_store = st, r_calls = [], r_visited = []\<rparr>"
  by (simp add: shouldGenerateInsights_def flag_def buildGraph_agent agent_simps run_agent)

text \<open>
  C6. Any sequence of partial updates to the append field \<open>messages\<close> is merged
  without error, and afterwards \<open>messages\<close> holds what it held before followed by the
  items of the updates in arrival order: all items of a sequence-valued update in
  their order, a scalar update as one item; the store is untouched.
\<close>

theorem messages_append_is_concatenation:
  "\<exists>fs'. merge_all GraphAnnotation config (fs, st) (map (\<lambda>v. [(''messages'', v)]) vs) = Inr (fs', st)
        \<and> sequence (fs' ''messages'') = sequence (fs ''messages'') @ concat (map items vs)
        \<and> items (VList xs) = xs
        \<and> items (VMsg m) = [VMsg m]"
  using merge_all_messages [of config fs st vs] by auto

text \<open>
  C1. The claim requires every field of a node's update to be declared in the schema.
  The update of \<open>generateInsights\<close> has the fields \<open>userRules\<close> and \<open>userAcceptedText\<close>,
  and \<open>GraphAnnotation\<close> does not declare \<open>userAcceptedText\<close>: merging the update is an
  \<open>UnknownFieldError\<close>.
\<close>

theorem generateInsights_update_has_undeclared_field:
  "snd (generateInsights sample_externals
          \<lparr>messages = [], userRules = None, contentGenerated = None, rules = None\<rparr> None)
     = Inr [(''userRules'', VRules \<lparr>styleRules = Some [''be concise''], contentRules = Some []\<rparr>),
            (''userAcceptedText'', VBool False)]
   \<and> map fst GraphAnnotation = [''messages'', ''userRules'', ''contentGenerated'', ''rules'']
   \<and> declared GraphAnnotation ''userRules''
   \<and> \<not> declared GraphAnnotation ''userAcceptedText''
   \<and> merge GraphAnnotation None (Map.empty, Map.empty)
        [(''userRules'', VRules \<lparr>styleRules = Some [''be concise''], contentRules = Some []\<rparr>),
         (''userAcceptedText'', VBool False)]
       = Inl UnknownFieldError"
  by (simp add: generateInsights_def sample_externals_def GraphAnnotation_def declared_def)



text \<open>
  C3. The claim requires the system message of \<open>callModel\<close> to be free of the text
  \<open>{rulesPrompt}\<close> when the state has no rules. The source calls
  \<open>systemPrompt.replace("{rulesPrompt}", "")\<close> there and drops the result: with no
  rules and no configuration the message sent to the model still ends in the
  placeholder.
\<close>

theorem callModel_sends_rulesPrompt_placeholder:
  "no_rules \<lparr>messages = [], userRules = None, contentGenerated = None, rules = None\<rparr>
   \<and> fst (callModel sample_externals
            \<lparr>messages = [], userRules = None, contentGenerated = None, rules = None\<rparr> None)
       = [ModelCall ''claude-3-5-sonnet-20240620''
            [Role ''system''
               ''You are a helpful assistant tasked with thoughtfully fulfilling the requests of the user.\<newline>\<newline>System rules:\<newline>\<newline><system_rules>\<newline>- Be helpful\<newline></system_rules>\<newline>\<newline>{rulesPrompt}'']]
   \<and> contains
         ''You are a helpful assistant tasked with thoughtfully fulfilling the requests of the user.\<newline>\<newline>System rules:\<newline>\<newline><system_rules>\<newline>- Be helpful\<newline></system_rules>\<newline>\<newline>{rulesPrompt}''
         ''{rulesPrompt}''"
proof -
  have "callModel_systemPrompt sample_externals
          \<lparr>messages = [], userRules = None, contentGenerated = None, rules = None\<rparr> None
        = ''You are a helpful assistant tasked with thoughtfully fulfilling the requests of the user.\<newline>\<newline>System rules:\<newline>\<newline><system_rules>\<newline>- Be helpful\<newline></system_rules>\<newline>\<newline>{rulesPrompt}''"
    unfolding callModel_systemPrompt_def js_replace_def split_SYSTEM_PROMPT
    by (simp add: truthy_def configured_systemRules_def DEFAULT_SYSTEM_RULES_STRING_def
          sample_externals_def)
  moreover have "contains
         ''You are a helpful assistant tasked with thoughtfully fulfilling the requests of the user.\<newline>\<newline>System rules:\<newline>\<newline><system_rules>\<newline>- Be helpful\<newline></system_rules>\<newline>\<newline>{rulesPrompt}''
         ''{rulesPrompt}''"
    by (simp add: contains_def starts_with_def)
  ultimately show ?thesis
    by (simp add: callModel_def callModel_input_def no_rules_def Let_def)
qed

text \<open>
  C2. Scenario A: when the configuration sets \<open>onlyGetRules\<close> and names a partition key
  under which the store holds \<open>{styleRules: ["be concise"], contentRules: []}\<close>, the
  run goes from START to \<open>getRules\<close> and from there to END; it executes no other node,
  calls no model, leaves the store as it was, and the \<open>rules\<close> field of the state it
  returns is the stored value.
\<close>

theorem scenario_A_returns_stored_rules:
  assumes "onlyGetRules cf = Some True"
    and "assistant_id cf = Some key"
    and "st (Some key) = Some (VRules \<lparr>styleRules = Some [''be concise''], contentRules = Some []\<rparr>)"
  shows "buildGraph ext = Inr (agent ext)
    \<and> follow (c_start (agent ext))
         (resolve (c_schema (agent ext)) (Some \<lparr>configurable = Some cf\<rparr>) init st)
         (Some \<lparr>configurable = Some cf\<rparr>) = Node ''getRules''
    \<and> (\<exists>r final. run (Suc fuel) (agent ext) init st (Some \<lparr>configurable = Some cf\<rparr>) = Some r
          \<and> executed r = [''getRules'']
          \<and> calls r = []
          \<and> final_store r = st
          \<and> outcome r = Inr final
          \<and> final ''rules'' = Some (VRules \<lparr>styleRules = Some [''be concise''], contentRules = Some []\<rparr>))"
proof -
  let ?config = "Some \<lparr>configurable = Some cf\<rparr>"
  let ?R = "\<lparr>styleRules = Some [''be concise''], contentRules = Some []\<rparr>"
  have route: "shouldGenerateInsights (as_State (resolve GraphAnnotation ?config init st)) ?config
                 = Node ''getRules''"
    using assms(1) by (simp add: shouldGenerateInsights_def flag_def)
  have read: "userRules (as_State (resolve GraphAnnotation ?config init st)) = Some ?R"
    using assms(2,3)
    by (simp add: as_State_def as_rules_def resolve_def GraphAnnotation_def store_get_def
          partition_key_def)
  have "run (Suc fuel) (agent ext) init st ?config =
          Some \<lparr>outcome = Inr (resolve GraphAnnotation ?config (init(''rules'' \<mapsto> VRules ?R)) st),
                final_store = st, calls = [], executed = [''getRules'']\<rparr>"
    using route read by (simp add: run_agent exec_getRules)
  moreover have "resolve GraphAnnotation ?config (init(''rules'' \<mapsto> VRules ?R)) st ''rules''
                   = Some (VRules ?R)"
    by (simp add: resolve_def GraphAnnotation_def)
  ultimately show ?thesis
    using route by (simp add: buildGraph_agent agent_simps)
qed

theorem scenario_A_witness:
  "buildGraph sample_externals = Inr (agent sample_externals)
   \<and> (\<exists>r final.
         run 1 (agent sample_externals) Map.empty
           [Some ''a1'' \<mapsto> VRules \<lparr>styleRules = Some [''be concise''], contentRules = Some []\<rparr>]
           (with_flags None (Some True) (Some ''a1'')) = Some r
         \<and> executed r = [''getRules'']
         \<and> calls r = []
         \<and> outcome r = Inr final
         \<and> final ''rules'' = Some (VRules \<lparr>styleRules = Some [''be concise''], contentRules = Some []\<rparr>))"
  using scenario_A_returns_stored_rules
    [of "\<lparr>systemRules = None, hasAcceptedText = None, onlyGetRules = Some True,
          assistant_id = Some ''a1''\<rparr>" "''a1''"
        "[Some ''a1'' \<mapsto> VRules \<lparr>styleRules = Some [''be concise''], contentRules = Some []\<rparr>]"
        sample_externals Map.empty 0]
  by (auto simp: with_flags_def)

text \<open>
  C9. Every run of the compiled graph ends, with a final state or an error, after at
  most two nodes: two units of fuel are always enough. The topology has no cycle:
  \<open>generateInsights\<close>, \<open>wasContentGenerated\<close> and \<open>getRules\<close> lead to END without
  condition, and the router after \<open>callModel\<close> returns END or \<open>wasContentGenerated\<close>.
\<close>

theorem every_run_terminates_within_two_nodes:
  "buildGraph ext = Inr (agent ext)
   \<and> (\<exists>r. run (Suc (Suc fuel)) (agent ext) init st config = Some r \<and> length (executed r) \<le> 2)
   \<and> map (\<lambda>(n, f, e). (n, case e of Direct t \<Rightarrow> Some t | Conditional r \<Rightarrow> None)) (c_nodes (agent ext))
       = [(''callModel'', None), (''generateInsights'', Some END),
          (''wasContentGenerated'', Some END), (''getRules'', Some END)]
   \<and> (\<exists>f r. map_of (c_nodes (agent ext)) ''callModel'' = Some (f, Conditional r)
          \<and> (\<forall>view c. r view c = END \<or> r view c = Node ''wasContentGenerated''))"
proof -
  have "map (\<lambda>(n, f, e). (n, case e of Direct t \<Rightarrow> Some t | Conditional r \<Rightarrow> None)) (c_nodes (agent ext))
       = [(''callModel'', None), (''generateInsights'', Some END),
          (''wasContentGenerated'', Some END), (''getRules'', Some END)]"
    by (simp add: agent_def)
  moreover have "\<forall>view c. (\<lambda>view config. shouldCheckContentGeneration (as_State view)) view c = END
          \<or> (\<lambda>view (config :: RunnableConfig option). shouldCheckContentGeneration (as_State view)) view c
               = Node ''wasContentGenerated''"
    by (simp add: shouldCheckContentGeneration_def)
  ultimately show ?thesis
    using run_agent_terminates [of fuel ext init st config] agent_simps(3) [of ext]
    by (simp add: buildGraph_agent)
qed

text \<open>
  C4. Scenario C: with neither flag set the initial router selects \<open>callModel\<close>. Once
  \<open>callModel\<close> has answered and its update is merged, the router of its conditional
  edge is applied to the state after the merge; whenever \<open>contentGenerated\<close> is not
  true there, the run continues at \<open>wasContentGenerated\<close> instead of ending.
\<close>

theorem scenario_C_routes_to_content_check:
  assumes "\<not> flag hasAcceptedText config" and "\<not> flag onlyGetRules config"
    and "invoke ext (callModel_input ext (as_State (resolve GraphAnnotation config init st)) config) config
           = Inr response"
    and "contentGenerated
           (as_State (resolve GraphAnnotation config
              (init(''messages'' \<mapsto> VList (sequence (init ''messages'') @ [VMsg response]))) st))
         \<noteq> Some True"
  shows "buildGraph ext = Inr (agent ext)
    \<and> follow (c_start (agent ext)) (resolve (c_schema (agent ext)) config init st) config
        = Node ''callModel''
    \<and> (\<forall>s. contentGenerated s \<noteq> Some True
            \<longrightarrow> shouldCheckContentGeneration s = Node ''wasContentGenerated'')
    \<and> run (Suc fuel) (agent ext) init st config =
        exec fuel (agent ext) config
          (shouldCheckContentGeneration
             (as_State (resolve GraphAnnotation config
                (init(''messages'' \<mapsto> VList (sequence (init ''messages'') @ [VMsg response]))) st)))
          \<lparr>r_fields = init(''messages'' \<mapsto> VList (sequence (init ''messages'') @ [VMsg response])),
           r_store = st,
           r_calls = [ModelCall ''claude-3-5-sonnet-20240620''
                        (callModel_input ext (as_State (resolve GraphAnnotation config init st)) config)],
           r_visited = [''callModel'']\<rparr>
    \<and> shouldCheckContentGeneration
          (as_State (resolve GraphAnnotation config
             (init(''messages'' \<mapsto> VList (sequence (init ''messages'') @ [VMsg response]))) st))
        = Node ''wasContentGenerated''"
proof -
  let ?rs = "\<lparr>r_fields = init, r_store = st, r_calls = [], r_visited = []\<rparr>"
  have route: "shouldGenerateInsights (as_State (resolve GraphAnnotation config init st)) config
                 = Node ''callModel''"
    using assms(1,2) by (simp add: shouldGenerateInsights_def)
  have "invoke ext (callModel_input ext
          (as_State (resolve GraphAnnotation config (r_fields ?rs) (r_store ?rs))) config) config
        = Inr response"
    using assms(3) by simp
  from exec_callModel_step [OF this, of fuel]
  have "run (Suc fuel) (agent ext) init st config =
        exec fuel (agent ext) config
          (shouldCheckContentGeneration
             (as_State (resolve GraphAnnotation config
                (init(''messages'' \<mapsto> VList (sequence (init ''messages'') @ [VMsg response]))) st)))
          \<lparr>r_fields = init(''messages'' \<mapsto> VList (sequence (init ''messages'') @ [VMsg response])),
           r_store = st,
           r_calls = [ModelCall ''claude-3-5-sonnet-20240620''
                        (callModel_input ext (as_State (resolve GraphAnnotation config init st)) config)],
           r_visited = [''callModel'']\<rparr>"
    using route by (simp add: run_agent)
  then show ?thesis
    using route assms(4)
    by (simp add: buildGraph_agent agent_simps shouldCheckContentGeneration_def)
qed

theorem scenario_C_witness:
  "buildGraph sample_externals = Inr (agent sample_externals)
   \<and> follow (c_start (agent sample_externals))
        (resolve (c_schema (agent sample_externals)) None [''contentGenerated'' \<mapsto> VBool False] Map.empty)
        None = Node ''callModel''
   \<and> run 2 (agent sample_externals) [''contentGenerated'' \<mapsto> VBool False] Map.empty None =
       exec 1 (agent sample_externals) None (Node ''wasContentGenerated'')
         \<lparr>r_fields = [''contentGenerated'' \<mapsto> VBool False,
                       ''messages'' \<mapsto> VList [VMsg \<lparr>getType = ''ai'', content = Text ''ok''\<rparr>]],
          r_store = Map.empty,
          r_calls = [ModelCall ''claude-3-5-sonnet-20240620''
                       (callModel_input sample_externals
                          (as_State (resolve GraphAnnotation None [''contentGenerated'' \<mapsto> VBool False] Map.empty))
                          None)],
          r_visited = [''callModel'']\<rparr>
   \<and> shouldCheckContentGeneration
         (as_State (resolve GraphAnnotation None
            [''contentGenerated'' \<mapsto> VBool False,
             ''messages'' \<mapsto> VList [VMsg \<lparr>getType = ''ai'', content = Text ''ok''\<rparr>]]
            Map.empty))
       = Node ''wasContentGenerated''"
proof -
  let ?init = "[''contentGenerated'' \<mapsto> VBool False]"
  have h1: "\<not> flag hasAcceptedText None" and h2: "\<not> flag onlyGetRules None"
    by (simp_all add: flag_def)
  have h3: "invoke sample_externals
              (callModel_input sample_externals
                 (as_State (resolve GraphAnnotation None ?init Map.empty)) None) None
            = Inr \<lparr>getType = ''ai'', content = Text ''ok''\<rparr>"
    by (simp add: sample_externals_def)
  have h4: "contentGenerated
              (as_State (resolve GraphAnnotation None
                 (?init(''messages'' \<mapsto>
                    VList (sequence (?init ''messages'') @ [VMsg \<lparr>getType = ''ai'', content = Text ''ok''\<rparr>])))
                 Map.empty))
            \<noteq> Some True"
    by (simp add: as_State_def resolve_def GraphAnnotation_def)
  show ?thesis
    using scenario_C_routes_to_content_check [OF h1 h2 h3 h4, of 1]
    by (simp add: numeral_2_eq_2 sequence_def)
qed

end
